theory Spec2Isabelle
  imports Main
begin

section \<open>DXF to Shapefile: the conversion pipeline of \<^verbatim>\<open>dxf_to_shapefile.py\<close>\<close>

text \<open>
  The script locates one polyline of a DXF drawing by its handle, extracts its vertices,
  rounds them, closes the ring and hands it to geopandas to be written as a shapefile.
  The functions below follow the source function by function, under the source's names.

  Coordinates are Python floats. Nothing in the pipeline computes with them except the
  rounding; they are only copied and compared, so they are values of a type \<open>'c\<close> with
  equality. HOL's equality is reflexive, so a NaN coordinate (which differs from itself in
  Python) is outside the model.
\<close>

subsection \<open>Data\<close>

text \<open>A point is the tuple \<^verbatim>\<open>(x, y)\<close>; a ring is the list \<^verbatim>\<open>pontos\<close>.\<close>

type_synonym 'c ponto = "'c \<times> 'c"
type_synonym 'c pontos = "'c ponto list"

text \<open>
  A vertex sub-record of a classic polyline: \<^verbatim>\<open>vertex.dxf.location\<close> has the fields
  \<^verbatim>\<open>x\<close>, \<^verbatim>\<open>y\<close> and \<^verbatim>\<open>z\<close>.
\<close>

record 'c location =
  loc_x :: 'c
  loc_y :: 'c
  loc_z :: 'c

text \<open>
  An entity of the model space, as far as the script reads it: \<^verbatim>\<open>entity.dxftype()\<close>,
  \<^verbatim>\<open>str(entity.dxf.handle)\<close> (a handle is a string already), \<^verbatim>\<open>entity.get_points()\<close>
  of a lightweight polyline (tuples \<^verbatim>\<open>(x, y, start_width, end_width, bulge)\<close>) and
  \<^verbatim>\<open>entity.vertices\<close> of a classic polyline. The script reads \<open>get_points\<close> only where
  the kind is LWPOLYLINE and \<open>vertices\<close> only where it is POLYLINE; for any other kind
  both fields are never looked at.
\<close>

record 'c entity =
  dxftype :: string
  handle :: string
  get_points :: "('c \<times> 'c \<times> 'c \<times> 'c \<times> 'c) list"
  vertices :: "'c location list"

text \<open>
  The lines the script prints, one constructor per \<^verbatim>\<open>print\<close> of the modelled functions:
  line 40 (polygon not found, with the identifier), line 77 (fewer than 3 points),
  line 100 (shapefile created, with the path) and line 103 (error while writing).
\<close>

datatype msg =
  Nao_encontrado string
  | Minimo_3_pontos
  | Shapefile_criado string
  | Erro_ao_criar

text \<open>
  A call returns a value or lets an exception of a library call escape. Exceptions are named
  after the call that raises them: \<^verbatim>\<open>Polygon(pontos)\<close> (line 84), \<^verbatim>\<open>int(zona_utm)\<close>
  (lines 91 and 93) and the assignment to \<^verbatim>\<open>gdf.crs\<close> (line 95), all outside the
  \<^verbatim>\<open>try\<close> of line 98.
\<close>

datatype exc = Polygon_raised | Int_raised | Crs_raised

datatype 'a outcome = Returned 'a | Raised exc

text \<open>
  \<^verbatim>\<open>zona_utm\<close> is what the caller passes: \<^verbatim>\<open>main\<close> passes the string read from the
  prompt, a direct caller may pass an integer.
\<close>

datatype zona = ZInt int | ZStr string

text \<open>The value assigned to \<^verbatim>\<open>gdf.crs\<close>: the string \<^verbatim>\<open>f"EPSG:{epsg_code}"\<close>.\<close>

datatype crs = EPSG int

text \<open>
  The frame \<^verbatim>\<open>gdf\<close> at line 99: one row, whose geometry is the polygon built from the
  ring, and the reference system.
\<close>

record 'c gdf =
  geometry :: "'c pontos"
  crs :: crs

text \<open>
  The calls into Python's builtins, shapely, pyproj and geopandas are not code of the
  script. Their behaviour is a parameter of the model:
  \<^item> \<open>py_round16 v\<close> is \<^verbatim>\<open>round(float(v), 16)\<close> for a float \<open>v\<close>;
  \<^item> \<open>py_int_str s\<close> is \<^verbatim>\<open>int(s)\<close> for a string \<open>s\<close>, \<open>None\<close> where it raises;
  \<^item> \<open>polygon_ok ps\<close> tells whether \<^verbatim>\<open>Polygon(ps)\<close> returns (or raises);
  \<^item> \<open>crs_ok n\<close> tells whether pyproj accepts \<^verbatim>\<open>"EPSG:n"\<close> (or raises);
  \<^item> \<open>to_file g path fs\<close> is \<^verbatim>\<open>g.to_file(path, driver='ESRI Shapefile')\<close> run on a
    directory holding the files \<open>fs\<close>: the files afterwards, and whether the call returned
    (\<open>True\<close>) or raised an \<^verbatim>\<open>Exception\<close> (\<open>False\<close>).
\<close>

record 'c library =
  py_round16 :: "'c \<Rightarrow> 'c"
  py_int_str :: "string \<Rightarrow> int option"
  polygon_ok :: "'c pontos \<Rightarrow> bool"
  crs_ok :: "int \<Rightarrow> bool"
  to_file :: "'c gdf \<Rightarrow> string \<Rightarrow> string list \<Rightarrow> string list \<times> bool"

text \<open>
  The state the functions act on: the list objects that are shared with a caller (a store from
  references to lists; \<^verbatim>\<open>criar_shapefile\<close> appends to the list it is given), the names of
  the files on disk, and the lines printed so far.
\<close>

type_synonym ref = nat

record 'c world =
  heap :: "ref \<Rightarrow> 'c pontos"
  files :: "string list"
  stdout :: "msg list"

subsection \<open>Builtins\<close>

text \<open>
  A HOL \<open>char\<close> is a byte: a Python string is modelled by its UTF-8 encoding, so an ASCII
  character is one \<open>char\<close> and any other character is a sequence of bytes from 0x80 on.

  \<^verbatim>\<open>str.upper()\<close> on one ASCII character: each of the letters a to z becomes its capital,
  every other character stays.
\<close>

definition upper_char :: "char \<Rightarrow> char" where
  "upper_char c =
     (case map_of (zip ''abcdefghijklmnopqrstuvwxyz'' ''ABCDEFGHIJKLMNOPQRSTUVWXYZ'') c of
        Some u \<Rightarrow> u
      | None \<Rightarrow> c)"

text \<open>
  \<^verbatim>\<open>str.upper()\<close> on a string. Beside the letters a to z, two characters have an ASCII
  capital: the long s, U+017F (bytes 0xC5 0xBF), whose capital is \<^verbatim>\<open>S\<close>, and the dotless i,
  U+0131 (bytes 0xC4 0xB1), whose capital is \<^verbatim>\<open>I\<close>. The capital of every other character
  beyond ASCII is not a single ASCII letter, and the bytes of such a character are left as they
  are. So the model is exact on ASCII text, and on any text it yields a string of one ASCII
  letter exactly when Python does; the script only compares the result with \<^verbatim>\<open>'S'\<close>.
\<close>

fun py_upper :: "string \<Rightarrow> string" where
  "py_upper (c # d # s) =
     (if c = CHR 0xC5 \<and> d = CHR 0xBF then CHR ''S'' # py_upper s
      else if c = CHR 0xC4 \<and> d = CHR 0xB1 then CHR ''I'' # py_upper s
      else upper_char c # py_upper (d # s))"
| "py_upper [c] = [upper_char c]"
| "py_upper [] = []"

text \<open>\<^verbatim>\<open>int(zona_utm)\<close>: an integer is returned as it is, a string is parsed.\<close>

fun py_int :: "'c library \<Rightarrow> zona \<Rightarrow> int option" where
  "py_int lib (ZInt n) = Some n"
| "py_int lib (ZStr s) = py_int_str lib s"

subsection \<open>The writer's coordinate system code (lines 89 to 93)\<close>

definition epsg_code :: "'c library \<Rightarrow> string \<Rightarrow> zona \<Rightarrow> int option" where
  "epsg_code lib hemisferio zona_utm =
     (if py_upper hemisferio = ''S''
      then map_option (\<lambda>n. 32700 + n) (py_int lib zona_utm)
      else map_option (\<lambda>n. 32600 + n) (py_int lib zona_utm))"

subsection \<open>Entity Locator: \<^verbatim>\<open>encontrar_poligono_por_id\<close> (lines 27 to 41)\<close>

text \<open>
  The loop of lines 34 to 38 over the model space \<^verbatim>\<open>msp\<close>, with its early return.
  \<^verbatim>\<open>entity_id\<close> is the string \<^verbatim>\<open>str(entity_id)\<close>.
\<close>

fun encontrar_loop :: "'c entity list \<Rightarrow> string \<Rightarrow> 'c entity option" where
  "encontrar_loop [] entity_id = None"
| "encontrar_loop (entity # msp) entity_id =
     (if dxftype entity \<in> set [''LWPOLYLINE'', ''POLYLINE'']
      then (if handle entity = entity_id then Some entity
            else encontrar_loop msp entity_id)
      else encontrar_loop msp entity_id)"

text \<open>After the loop the function prints that nothing was found and returns \<^verbatim>\<open>None\<close>.\<close>

definition encontrar_poligono_por_id ::
  "'c entity list \<Rightarrow> string \<Rightarrow> 'c world \<Rightarrow> 'c entity option \<times> 'c world" where
  "encontrar_poligono_por_id msp entity_id w =
     (case encontrar_loop msp entity_id of
        Some entity \<Rightarrow> (Some entity, w)
      | None \<Rightarrow> (None, w\<lparr>stdout := stdout w @ [Nao_encontrado entity_id]\<rparr>))"

text \<open>
  The two tests of lines 35 and 37 together: the entity is of a polyline kind and carries
  the requested handle.
\<close>

definition qualifica :: "string \<Rightarrow> 'c entity \<Rightarrow> bool" where
  "qualifica entity_id e \<longleftrightarrow>
     (dxftype e = ''LWPOLYLINE'' \<or> dxftype e = ''POLYLINE'') \<and> handle e = entity_id"

subsection \<open>Ring Extractor: \<^verbatim>\<open>extrair_coordenadas_poligono\<close> (lines 43 to 56)\<close>

text \<open>The two loops append to the list \<^verbatim>\<open>pontos\<close>, which starts empty.\<close>

fun get_points_loop ::
  "('c \<times> 'c \<times> 'c \<times> 'c \<times> 'c) list \<Rightarrow> 'c pontos \<Rightarrow> 'c pontos" where
  "get_points_loop [] pontos = pontos"
| "get_points_loop (point # rest) pontos =
     get_points_loop rest (pontos @ [(fst point, fst (snd point))])"

fun vertices_loop :: "'c location list \<Rightarrow> 'c pontos \<Rightarrow> 'c pontos" where
  "vertices_loop [] pontos = pontos"
| "vertices_loop (vertex # rest) pontos =
     vertices_loop rest (pontos @ [(loc_x vertex, loc_y vertex)])"

definition extrair_coordenadas_poligono :: "'c entity \<Rightarrow> 'c pontos" where
  "extrair_coordenadas_poligono entity =
     (if dxftype entity = ''LWPOLYLINE'' then get_points_loop (get_points entity) []
      else if dxftype entity = ''POLYLINE'' then vertices_loop (vertices entity) []
      else [])"

subsection \<open>Normalization: \<^verbatim>\<open>converter_coordenadas_utm\<close> (lines 58 to 69)\<close>

text \<open>
  The loop appends the rounded pair to \<^verbatim>\<open>pontos_utm\<close>. The zone and the hemisphere are
  parameters of the source function that its body never reads.
\<close>

fun converter_loop :: "'c library \<Rightarrow> 'c pontos \<Rightarrow> 'c pontos \<Rightarrow> 'c pontos" where
  "converter_loop lib [] pontos_utm = pontos_utm"
| "converter_loop lib ((px, py) # rest) pontos_utm =
     converter_loop lib rest (pontos_utm @ [(py_round16 lib px, py_round16 lib py)])"

definition converter_coordenadas_utm ::
  "'c library \<Rightarrow> 'c pontos \<Rightarrow> zona \<Rightarrow> string \<Rightarrow> 'c pontos" where
  "converter_coordenadas_utm lib pontos zona_utm hemisferio = converter_loop lib pontos []"

subsection \<open>Vector Writer: \<^verbatim>\<open>criar_shapefile\<close> (lines 71 to 104)\<close>

text \<open>
  Lines 97 to 104: the one call of \<^verbatim>\<open>to_file\<close> inside \<^verbatim>\<open>try\<close>. When it returns, the
  function prints the path and returns \<^verbatim>\<open>True\<close>; when it raises an \<^verbatim>\<open>Exception\<close>, the
  function prints the error and returns \<^verbatim>\<open>False\<close>. Whatever the call left on disk stays
  there. An interrupt by the operator is no \<^verbatim>\<open>Exception\<close> and is not modelled.
\<close>

definition salvar ::
  "'c library \<Rightarrow> 'c gdf \<Rightarrow> string \<Rightarrow> 'c world \<Rightarrow> bool outcome \<times> 'c world" where
  "salvar lib g caminho_saida w =
     (case to_file lib g caminho_saida (files w) of
        (fs, True) \<Rightarrow>
          (Returned True,
           w\<lparr>files := fs, stdout := stdout w @ [Shapefile_criado caminho_saida]\<rparr>)
      | (fs, False) \<Rightarrow>
          (Returned False, w\<lparr>files := fs, stdout := stdout w @ [Erro_ao_criar]\<rparr>))"

text \<open>
  Lines 84 to 104, the serialization of the ring \<^verbatim>\<open>pontos\<close> holds at line 84: the polygon,
  the frame, the code of the reference system, and the write.
\<close>

definition serializar ::
  "'c library \<Rightarrow> 'c pontos \<Rightarrow> zona \<Rightarrow> string \<Rightarrow> string \<Rightarrow> 'c world
     \<Rightarrow> bool outcome \<times> 'c world" where
  "serializar lib ring zona_utm hemisferio caminho_saida w =
     (if \<not> polygon_ok lib ring then (Raised Polygon_raised, w)
      else case epsg_code lib hemisferio zona_utm of
        None \<Rightarrow> (Raised Int_raised, w)
      | Some n \<Rightarrow>
          if \<not> crs_ok lib n then (Raised Crs_raised, w)
          else salvar lib \<lparr>geometry = ring, crs = EPSG n\<rparr> caminho_saida w)"

text \<open>
  The whole function. \<^verbatim>\<open>pontos\<close> is a reference to the caller's list: line 82 appends to
  that very list. With at least 3 elements, \<^verbatim>\<open>pontos[0]\<close> and \<^verbatim>\<open>pontos[-1]\<close> exist.
\<close>

definition criar_shapefile ::
  "'c library \<Rightarrow> ref \<Rightarrow> zona \<Rightarrow> string \<Rightarrow> string \<Rightarrow> 'c world
     \<Rightarrow> bool outcome \<times> 'c world" where
  "criar_shapefile lib pontos zona_utm hemisferio caminho_saida w =
     (if length (heap w pontos) < 3
      then (Returned False, w\<lparr>stdout := stdout w @ [Minimo_3_pontos]\<rparr>)
      else
        let w1 = (if heap w pontos ! 0 \<noteq> last (heap w pontos)
                  then w\<lparr>heap := (heap w)(pontos := heap w pontos @ [heap w pontos ! 0])\<rparr>
                  else w)
        in serializar lib (heap w1 pontos) zona_utm hemisferio caminho_saida w1)"

subsection \<open>The write as the specification describes it\<close>

text \<open>
  Modelled from the spec: the names of the four output files. The serialization is done inside
  geopandas' \<^verbatim>\<open>to_file\<close>, which is not under \<^verbatim>\<open>src/\<close>. Sections 4.4 and 6 of the
  specification name the bundle: a geometry file, a spatial index file, an attribute table and
  a projection descriptor, all on the base name handed to the writer. The extensions are those
  of the docstring of \<^verbatim>\<open>criar_shapefile\<close> (line 73) and of lines 175 to 178.
\<close>

definition quatro_arquivos :: "string \<Rightarrow> string list" where
  "quatro_arquivos base = [base @ ''.shp'', base @ ''.shx'', base @ ''.dbf'', base @ ''.prj'']"

text \<open>
  Modelled from the spec: the writes of \<^verbatim>\<open>to_file\<close> to the underlying storage, one file
  after the other. \<open>ok f\<close> tells whether the storage accepts the write of the file \<open>f\<close>.
  Section 7 describes the WriteError as the failure of the storage write of any one of the four
  files, after which files of the run may be left partially written: the first refused write
  ends the call with an exception (\<open>False\<close>) and the files written before it stay.
\<close>

fun escrever :: "(string \<Rightarrow> bool) \<Rightarrow> string list \<Rightarrow> string list \<Rightarrow> string list \<times> bool" where
  "escrever ok [] fs = (fs, True)"
| "escrever ok (f # rest) fs = (if ok f then escrever ok rest (fs @ [f]) else (fs, False))"

text \<open>
  Modelled from the spec: \<^verbatim>\<open>to_file\<close> itself, which is not under \<^verbatim>\<open>src/\<close>. It writes
  the four files of the bundle on the base name \<open>path\<close>.
\<close>

definition spec_to_file ::
  "(string \<Rightarrow> bool) \<Rightarrow> 'c gdf \<Rightarrow> string \<Rightarrow> string list \<Rightarrow> string list \<times> bool" where
  "spec_to_file ok g path fs = escrever ok (quatro_arquivos path) fs"

subsection \<open>Libraries and a world to run the functions on\<close>

text \<open>\<^verbatim>\<open>int\<close> on a string of ASCII digits; the examples pass no other string.\<close>

definition digitos :: "string \<Rightarrow> int option" where
  "digitos s =
     (if s \<noteq> [] \<and> list_all (\<lambda>c. c \<in> set ''0123456789'') s
      then Some (foldl (\<lambda>a c. 10 * a + (of_char c - 48)) 0 s)
      else None)"

text \<open>
  The library as the specification describes it, on a storage that accepts every write: integer
  coordinates, a rounding that returns its argument, a polygon constructor and a reference
  system that accept everything, and the \<^verbatim>\<open>to_file\<close> modelled from the specification.
\<close>

definition demo_library :: "int library" where
  "demo_library =
     \<lparr>py_round16 = (\<lambda>v. v),
      py_int_str = digitos,
      polygon_ok = (\<lambda>ps. True),
      crs_ok = (\<lambda>n. True),
      to_file = spec_to_file (\<lambda>f. True)\<rparr>"

text \<open>
  The library with \<^verbatim>\<open>to_file\<close> as geopandas runs it on the frame of line 87. That frame is
  \<^verbatim>\<open>GeoDataFrame([1], geometry=[poligono])\<close>, whose first column is named by the integer
  0. For the shapefile driver \<^verbatim>\<open>to_file\<close> takes the length of every column name before it
  writes, which raises a \<^verbatim>\<open>TypeError\<close> on that name: the call raises and no file is created.
\<close>

definition observed_library :: "int library" where
  "observed_library = demo_library\<lparr>to_file := (\<lambda>g path fs. (fs, False))\<rparr>"

text \<open>The library of the specification on a disk that fails after the first file.\<close>

definition failing_library :: "int library" where
  "failing_library = demo_library\<lparr>to_file := (\<lambda>g path fs. (fs @ [path @ ''.shp''], False))\<rparr>"

text \<open>A world with the one list \<open>ps\<close> at reference 0, no files and nothing printed.\<close>

definition world_of :: "'c pontos \<Rightarrow> 'c world" where
  "world_of ps = \<lparr>heap = (\<lambda>r. if r = 0 then ps else []), files = [], stdout = []\<rparr>"

text \<open>Scenario A of the specification: an open ring of three points.\<close>

definition cenario_a :: "int pontos" where
  "cenario_a = [(500000, 7500000), (500100, 7500000), (500100, 7500100)]"

text \<open>
  A model space for the examples: a line and two polylines that carry the handle 1A, and
  a lightweight polyline with another handle.
\<close>

definition linha_1A :: "int entity" where
  "linha_1A = \<lparr>dxftype = ''LINE'', handle = ''1A'', get_points = [], vertices = []\<rparr>"

definition lw_2B :: "int entity" where
  "lw_2B =
     \<lparr>dxftype = ''LWPOLYLINE'', handle = ''2B'',
      get_points = [(0, 0, 0, 0, 0), (10, 0, 0, 0, 1), (10, 10, 2, 2, 0)], vertices = []\<rparr>"

definition poly_1A :: "int entity" where
  "poly_1A =
     \<lparr>dxftype = ''POLYLINE'', handle = ''1A'', get_points = [],
      vertices = [\<lparr>loc_x = 0, loc_y = 0, loc_z = 7\<rparr>, \<lparr>loc_x = 4, loc_y = 0, loc_z = 8\<rparr>,
                  \<lparr>loc_x = 4, loc_y = 3, loc_z = 9\<rparr>]\<rparr>"

definition lw_1A :: "int entity" where
  "lw_1A =
     \<lparr>dxftype = ''LWPOLYLINE'', handle = ''1A'',
      get_points = [(1, 1, 0, 0, 0), (2, 1, 0, 0, 0), (2, 2, 0, 0, 0)], vertices = []\<rparr>"

text \<open>Scenario D of the specification: a classic polyline with two vertices.\<close>

definition dois_vertices :: "int entity" where
  "dois_vertices =
     \<lparr>dxftype = ''POLYLINE'', handle = ''2F'', get_points = [],
      vertices = [\<lparr>loc_x = 0, loc_y = 0, loc_z = 0\<rparr>, \<lparr>loc_x = 10, loc_y = 0, loc_z = 5\<rparr>]\<rparr>"

section \<open>Properties\<close>

subsection \<open>The coordinate system code\<close>

text \<open>
  The strings whose upper case is \<^verbatim>\<open>S\<close> are \<^verbatim>\<open>S\<close>, \<^verbatim>\<open>s\<close> and the long s; those whose
  upper case is \<^verbatim>\<open>N\<close> are \<^verbatim>\<open>N\<close> and \<^verbatim>\<open>n\<close>.
\<close>

lemma upper_char_eq_S: "upper_char c = CHR ''S'' \<longleftrightarrow> c = CHR ''S'' \<or> c = CHR ''s''"
  by (simp add: upper_char_def)

lemma upper_char_eq_N: "upper_char c = CHR ''N'' \<longleftrightarrow> c = CHR ''N'' \<or> c = CHR ''n''"
  by (simp add: upper_char_def)

lemma py_upper_Nil: "py_upper s = [] \<longleftrightarrow> s = []"
  by (induction s rule: py_upper.induct) auto

lemma py_upper_eq_S:
  "py_upper h = ''S'' \<longleftrightarrow> h = ''S'' \<or> h = ''s'' \<or> h = [CHR 0xC5, CHR 0xBF]"
proof (cases h rule: py_upper.cases)
  case (1 c d s)
  then show ?thesis by (auto simp: py_upper_Nil)
next
  case (2 c)
  then show ?thesis by (auto simp: upper_char_eq_S)
next
  case 3
  then show ?thesis by simp
qed

lemma py_upper_eq_N: "py_upper h = ''N'' \<longleftrightarrow> h = ''N'' \<or> h = ''n''"
proof (cases h rule: py_upper.cases)
  case (1 c d s)
  then show ?thesis by (auto simp: py_upper_Nil)
next
  case (2 c)
  then show ?thesis by (auto simp: upper_char_eq_N)
next
  case 3
  then show ?thesis by simp
qed

text \<open>
  Claim C1. Whenever \<^verbatim>\<open>int(zona_utm)\<close> is the integer \<open>z\<close>, the code the writer computes is
  \<open>32600 + z\<close> for a hemisphere whose upper case is \<^verbatim>\<open>N\<close> and \<open>32700 + z\<close> for one whose
  upper case is \<^verbatim>\<open>S\<close>. In particular the code of (S, 22) is 32722, that of (N, 22) is 32622,
  that of (S, 1) is 32701, and the lower case \<^verbatim>\<open>s\<close> gives the code of \<^verbatim>\<open>S\<close>.
\<close>

theorem epsg_code_by_hemisphere:
  assumes "py_int lib zona_utm = Some z"
  shows "(py_upper h = ''N'' \<longrightarrow> epsg_code lib h zona_utm = Some (32600 + z)) \<and>
         (py_upper h = ''S'' \<longrightarrow> epsg_code lib h zona_utm = Some (32700 + z)) \<and>
         epsg_code lib ''S'' (ZInt 22) = Some 32722 \<and>
         epsg_code lib ''N'' (ZInt 22) = Some 32622 \<and>
         epsg_code lib ''S'' (ZInt 1) = Some 32701 \<and>
         epsg_code lib ''s'' zona_utm = epsg_code lib ''S'' zona_utm"
proof -
  have n: "py_upper h = ''N'' \<longrightarrow> epsg_code lib h zona_utm = Some (32600 + z)"
    using assms by (simp add: epsg_code_def)
  have s: "py_upper h = ''S'' \<longrightarrow> epsg_code lib h zona_utm = Some (32700 + z)"
    using assms by (simp add: epsg_code_def)
  have c: "epsg_code lib ''S'' (ZInt 22) = Some 32722"
    "epsg_code lib ''N'' (ZInt 22) = Some 32622"
    "epsg_code lib ''S'' (ZInt 1) = Some 32701"
    by (simp_all add: epsg_code_def upper_char_def)
  have l: "epsg_code lib ''s'' zona_utm = epsg_code lib ''S'' zona_utm"
    by (simp add: epsg_code_def upper_char_def)
  from n s c l show ?thesis by blast
qed

theorem epsg_code_by_hemisphere_witness:
  "py_int demo_library (ZStr ''22'') = Some 22 \<and>
   py_upper ''n'' = ''N'' \<and> py_upper ''s'' = ''S'' \<and>
   epsg_code demo_library ''n'' (ZStr ''22'') = Some 32622 \<and>
   epsg_code demo_library ''s'' (ZStr ''22'') = Some 32722"
proof -
  have z: "py_int demo_library (ZStr ''22'') = Some 22"
    by (simp add: demo_library_def digitos_def)
  have un: "py_upper ''n'' = ''N''" and us: "py_upper ''s'' = ''S''"
    by (simp_all add: upper_char_def)
  from epsg_code_by_hemisphere [OF z, of "''n''"]
    epsg_code_by_hemisphere [OF z, of "''s''"] z un us
  show ?thesis by simp
qed

text \<open>
  Claim C5, as amended. The writer has no error for the hemisphere. Every hemisphere whose
  upper case is not \<^verbatim>\<open>S\<close>, whether it is \<^verbatim>\<open>N\<close>, \<^verbatim>\<open>n\<close> or any other string, takes the
  \<^verbatim>\<open>else\<close> branch of line 92: the code is \<open>32600 + z\<close> and the whole call behaves as it does
  for \<^verbatim>\<open>N\<close>. Where the polygon, the zone and the reference system are accepted, the
  serialization goes on to the write: it is the call of \<^verbatim>\<open>to_file\<close> on the frame with the
  code \<open>32600 + z\<close>.
\<close>

theorem hemisphere_other_than_S_is_north:
  assumes "py_upper h \<noteq> ''S''"
  shows "epsg_code lib h zona_utm = epsg_code lib ''N'' zona_utm \<and>
         (py_int lib zona_utm = Some z \<longrightarrow> epsg_code lib h zona_utm = Some (32600 + z)) \<and>
         criar_shapefile lib r zona_utm h caminho_saida w =
           criar_shapefile lib r zona_utm ''N'' caminho_saida w \<and>
         (polygon_ok lib ring \<and> py_int lib zona_utm = Some z \<and> crs_ok lib (32600 + z) \<longrightarrow>
            serializar lib ring zona_utm h caminho_saida v =
              salvar lib \<lparr>geometry = ring, crs = EPSG (32600 + z)\<rparr> caminho_saida v)"
proof -
  have north: "py_upper ''N'' \<noteq> ''S''"
    by (simp add: upper_char_def)
  from assms north have e: "epsg_code lib h zona_utm = epsg_code lib ''N'' zona_utm"
    by (simp add: epsg_code_def)
  from assms
  have n: "py_int lib zona_utm = Some z \<longrightarrow> epsg_code lib h zona_utm = Some (32600 + z)"
    by (simp add: epsg_code_def)
  from e have "serializar lib ps zona_utm h caminho_saida u =
       serializar lib ps zona_utm ''N'' caminho_saida u" for ps u
    by (simp add: serializar_def)
  then have c: "criar_shapefile lib r zona_utm h caminho_saida w =
           criar_shapefile lib r zona_utm ''N'' caminho_saida w"
    by (simp add: criar_shapefile_def)
  from n have s: "polygon_ok lib ring \<and> py_int lib zona_utm = Some z \<and> crs_ok lib (32600 + z) \<longrightarrow>
            serializar lib ring zona_utm h caminho_saida v =
              salvar lib \<lparr>geometry = ring, crs = EPSG (32600 + z)\<rparr> caminho_saida v"
    by (simp add: serializar_def)
  from e n c s show ?thesis by simp
qed

theorem hemisphere_other_than_S_is_north_witness:
  "py_upper ''X'' \<noteq> ''S'' \<and> py_int demo_library (ZInt 22) = Some 22 \<and>
   polygon_ok demo_library cenario_a \<and> crs_ok demo_library (32600 + 22) \<and>
   epsg_code demo_library ''X'' (ZInt 22) = Some 32622 \<and>
   criar_shapefile demo_library 0 (ZInt 22) ''X'' ''saida'' (world_of cenario_a) =
     criar_shapefile demo_library 0 (ZInt 22) ''N'' ''saida'' (world_of cenario_a) \<and>
   serializar demo_library cenario_a (ZInt 22) ''X'' ''saida'' (world_of cenario_a) =
     salvar demo_library \<lparr>geometry = cenario_a, crs = EPSG 32622\<rparr> ''saida'' (world_of cenario_a)"
proof -
  have x: "py_upper ''X'' \<noteq> ''S''"
    by (simp add: upper_char_def)
  have z: "py_int demo_library (ZInt 22) = Some 22" by simp
  have k: "polygon_ok demo_library cenario_a" "crs_ok demo_library (32600 + 22)"
    by (simp_all add: demo_library_def)
  note inst = hemisphere_other_than_S_is_north
    [OF x, of demo_library "ZInt 22" 22 0 "''saida''" "world_of cenario_a" cenario_a
      "world_of cenario_a"]
  from inst [THEN conjunct2, THEN conjunct1] z
  have c: "epsg_code demo_library ''X'' (ZInt 22) = Some 32622" by simp
  from inst [THEN conjunct2, THEN conjunct2, THEN conjunct1]
  have d: "criar_shapefile demo_library 0 (ZInt 22) ''X'' ''saida'' (world_of cenario_a) =
     criar_shapefile demo_library 0 (ZInt 22) ''N'' ''saida'' (world_of cenario_a)" .
  from inst [THEN conjunct2, THEN conjunct2, THEN conjunct2] z k
  have e: "serializar demo_library cenario_a (ZInt 22) ''X'' ''saida'' (world_of cenario_a) =
     salvar demo_library \<lparr>geometry = cenario_a, crs = EPSG 32622\<rparr> ''saida'' (world_of cenario_a)"
    by simp
  from x z k c d e show ?thesis by blast
qed

text \<open>
  Claim C5 as it was stated fails. Take the hemisphere \<^verbatim>\<open>X\<close>, which is neither \<^verbatim>\<open>N\<close> nor
  \<^verbatim>\<open>S\<close>, zone 22, the ring of scenario A and \<^verbatim>\<open>to_file\<close> as geopandas runs it. The
  writer reports no validation error before the write: it computes the code 32622 and calls
  \<^verbatim>\<open>to_file\<close> on the frame with that code. The call raises, as it does for every hemisphere,
  and the one line printed is the error of the write (line 103); the run is the run for \<^verbatim>\<open>N\<close>.
\<close>

theorem hemisphere_X_reaches_the_write:
  "py_upper ''X'' \<noteq> ''N'' \<and> py_upper ''X'' \<noteq> ''S'' \<and>
   epsg_code observed_library ''X'' (ZInt 22) = Some 32622 \<and>
   criar_shapefile observed_library 0 (ZInt 22) ''X'' ''saida'' (world_of cenario_a) =
     salvar observed_library
       \<lparr>geometry = cenario_a @ [(500000, 7500000)], crs = EPSG 32622\<rparr> ''saida''
       ((world_of cenario_a)
          \<lparr>heap := (heap (world_of cenario_a))(0 := cenario_a @ [(500000, 7500000)])\<rparr>) \<and>
   fst (criar_shapefile observed_library 0 (ZInt 22) ''X'' ''saida'' (world_of cenario_a)) =
     Returned False \<and>
   files (snd (criar_shapefile observed_library 0 (ZInt 22) ''X'' ''saida''
                 (world_of cenario_a))) = [] \<and>
   stdout (snd (criar_shapefile observed_library 0 (ZInt 22) ''X'' ''saida''
                  (world_of cenario_a))) = [Erro_ao_criar] \<and>
   criar_shapefile observed_library 0 (ZInt 22) ''X'' ''saida'' (world_of cenario_a) =
     criar_shapefile observed_library 0 (ZInt 22) ''N'' ''saida'' (world_of cenario_a)"
proof -
  have u: "py_upper ''X'' \<noteq> ''N''" "py_upper ''X'' \<noteq> ''S''" "py_upper ''N'' \<noteq> ''S''"
    by (simp_all add: upper_char_def)
  have l: "polygon_ok observed_library ps" "crs_ok observed_library n"
    "to_file observed_library g path fs = (fs, False)" for ps n g path fs
    by (simp_all add: observed_library_def demo_library_def)
  from u have c: "epsg_code observed_library ''X'' (ZInt 22) = Some 32622"
    "epsg_code observed_library ''N'' (ZInt 22) = Some 32622"
    by (simp_all add: epsg_code_def)
  have h: "heap (world_of cenario_a) 0 = cenario_a" "length cenario_a = 3"
    "cenario_a ! 0 = (500000, 7500000)" "last cenario_a = (500100, 7500100)"
    "files (world_of cenario_a) = []" "stdout (world_of cenario_a) = []"
    by (simp_all add: world_of_def cenario_a_def)
  have run: "criar_shapefile observed_library 0 (ZInt 22) hem ''saida'' (world_of cenario_a) =
     salvar observed_library
       \<lparr>geometry = cenario_a @ [(500000, 7500000)], crs = EPSG 32622\<rparr> ''saida''
       ((world_of cenario_a)
          \<lparr>heap := (heap (world_of cenario_a))(0 := cenario_a @ [(500000, 7500000)])\<rparr>)"
    if "epsg_code observed_library hem (ZInt 22) = Some 32622" for hem
    using that by (simp add: criar_shapefile_def serializar_def h l)
  have sv: "salvar observed_library g ''saida''
       ((world_of cenario_a)\<lparr>heap := hp\<rparr>) =
     (Returned False, (world_of cenario_a)\<lparr>heap := hp, files := [], stdout := [Erro_ao_criar]\<rparr>)"
    for g hp
    by (simp add: salvar_def l h)
  from run [OF c(1)] run [OF c(2)] sv u c show ?thesis by simp
qed

subsection \<open>The locator\<close>

lemma encontrar_loop_None:
  "encontrar_loop msp i = None \<longleftrightarrow> (\<forall>e \<in> set msp. \<not> qualifica i e)"
  by (induction msp) (auto simp: qualifica_def)

lemma encontrar_loop_Some:
  "encontrar_loop msp i = Some e \<longleftrightarrow>
     (\<exists>pre post. msp = pre @ e # post \<and> qualifica i e \<and> (\<forall>d \<in> set pre. \<not> qualifica i d))"
proof (induction msp)
  case Nil
  then show ?case by simp
next
  case (Cons a msp)
  show ?case
  proof (cases "qualifica i a")
    case True
    then have l: "encontrar_loop (a # msp) i = Some a"
      by (auto simp: qualifica_def)
    show ?thesis
    proof
      assume "encontrar_loop (a # msp) i = Some e"
      with l have "e = a" by simp
      with True
      have "a # msp = [] @ e # msp \<and> qualifica i e \<and> (\<forall>d \<in> set []. \<not> qualifica i d)"
        by simp
      then show "\<exists>pre post. a # msp = pre @ e # post \<and> qualifica i e \<and>
                   (\<forall>d \<in> set pre. \<not> qualifica i d)"
        by blast
    next
      assume "\<exists>pre post. a # msp = pre @ e # post \<and> qualifica i e \<and>
                (\<forall>d \<in> set pre. \<not> qualifica i d)"
      then obtain pre post
        where p: "a # msp = pre @ e # post" "\<forall>d \<in> set pre. \<not> qualifica i d"
        by blast
      with True have "pre = []" by (cases pre) auto
      with p have "e = a" by simp
      with l show "encontrar_loop (a # msp) i = Some e" by simp
    qed
  next
    case False
    then have l: "encontrar_loop (a # msp) i = encontrar_loop msp i"
      by (auto simp: qualifica_def)
    show ?thesis
    proof
      assume "encontrar_loop (a # msp) i = Some e"
      with l Cons.IH obtain pre post where
        "msp = pre @ e # post" "qualifica i e" "\<forall>d \<in> set pre. \<not> qualifica i d"
        by auto
      with False
      have "a # msp = (a # pre) @ e # post \<and> qualifica i e \<and>
            (\<forall>d \<in> set (a # pre). \<not> qualifica i d)"
        by simp
      then show "\<exists>pre post. a # msp = pre @ e # post \<and> qualifica i e \<and>
                   (\<forall>d \<in> set pre. \<not> qualifica i d)"
        by blast
    next
      assume "\<exists>pre post. a # msp = pre @ e # post \<and> qualifica i e \<and>
                (\<forall>d \<in> set pre. \<not> qualifica i d)"
      then obtain pre post
        where p: "a # msp = pre @ e # post" "qualifica i e" "\<forall>d \<in> set pre. \<not> qualifica i d"
        by blast
      with False obtain pre' where "pre = a # pre'" by (cases pre) auto
      with p have "msp = pre' @ e # post \<and> qualifica i e \<and> (\<forall>d \<in> set pre'. \<not> qualifica i d)"
        by simp
      then have "encontrar_loop msp i = Some e" using Cons.IH by blast
      with l show "encontrar_loop (a # msp) i = Some e" by simp
    qed
  qed
qed

text \<open>
  Claim C4. The locator returns an entity \<open>e\<close> exactly when \<open>e\<close> stands in the model space
  after a prefix \<open>pre\<close> in which no entity is a polyline (of either kind) carrying the requested
  handle, and \<open>e\<close> is one: the first match in iteration order. It returns \<^verbatim>\<open>None\<close> exactly
  when no entity of the model space is such a polyline. In particular, when every entity that
  carries the handle is of another kind, it prints its message and returns \<^verbatim>\<open>None\<close>. The
  function is total: it never raises.
\<close>

theorem encontrar_poligono_por_id_first_match:
  "(fst (encontrar_poligono_por_id msp entity_id w) = Some e \<longleftrightarrow>
      (\<exists>pre post. msp = pre @ e # post \<and>
         (dxftype e = ''LWPOLYLINE'' \<or> dxftype e = ''POLYLINE'') \<and> handle e = entity_id \<and>
         (\<forall>d \<in> set pre. \<not> ((dxftype d = ''LWPOLYLINE'' \<or> dxftype d = ''POLYLINE'') \<and>
                               handle d = entity_id)))) \<and>
   (fst (encontrar_poligono_por_id msp entity_id w) = None \<longleftrightarrow>
      (\<forall>d \<in> set msp. \<not> ((dxftype d = ''LWPOLYLINE'' \<or> dxftype d = ''POLYLINE'') \<and>
                            handle d = entity_id))) \<and>
   ((\<forall>d \<in> set msp. handle d = entity_id \<longrightarrow>
        dxftype d \<noteq> ''LWPOLYLINE'' \<and> dxftype d \<noteq> ''POLYLINE'') \<longrightarrow>
      encontrar_poligono_por_id msp entity_id w =
        (None, w\<lparr>stdout := stdout w @ [Nao_encontrado entity_id]\<rparr>))"
proof -
  have f: "fst (encontrar_poligono_por_id msp entity_id w) = encontrar_loop msp entity_id"
    by (simp add: encontrar_poligono_por_id_def split: option.splits)
  have a: "fst (encontrar_poligono_por_id msp entity_id w) = Some e \<longleftrightarrow>
      (\<exists>pre post. msp = pre @ e # post \<and>
         (dxftype e = ''LWPOLYLINE'' \<or> dxftype e = ''POLYLINE'') \<and> handle e = entity_id \<and>
         (\<forall>d \<in> set pre. \<not> ((dxftype d = ''LWPOLYLINE'' \<or> dxftype d = ''POLYLINE'') \<and>
                               handle d = entity_id)))"
    unfolding f encontrar_loop_Some qualifica_def by simp
  have b: "fst (encontrar_poligono_por_id msp entity_id w) = None \<longleftrightarrow>
      (\<forall>d \<in> set msp. \<not> ((dxftype d = ''LWPOLYLINE'' \<or> dxftype d = ''POLYLINE'') \<and>
                            handle d = entity_id))"
    unfolding f encontrar_loop_None qualifica_def by simp
  have c: "encontrar_poligono_por_id msp entity_id w =
        (None, w\<lparr>stdout := stdout w @ [Nao_encontrado entity_id]\<rparr>)"
    if "\<forall>d \<in> set msp. handle d = entity_id \<longrightarrow>
        dxftype d \<noteq> ''LWPOLYLINE'' \<and> dxftype d \<noteq> ''POLYLINE''"
  proof -
    from that have "\<forall>d \<in> set msp. \<not> qualifica entity_id d"
      by (auto simp: qualifica_def)
    then have "encontrar_loop msp entity_id = None"
      by (simp add: encontrar_loop_None)
    then show ?thesis
      by (simp add: encontrar_poligono_por_id_def)
  qed
  from a b c show ?thesis by blast
qed

theorem encontrar_poligono_por_id_first_match_witness:
  "fst (encontrar_poligono_por_id [linha_1A, lw_2B, poly_1A, lw_1A] ''1A'' (world_of [])) =
     Some poly_1A \<and>
   handle linha_1A = ''1A'' \<and> dxftype linha_1A = ''LINE'' \<and> handle lw_2B = ''2B'' \<and>
   encontrar_poligono_por_id [linha_1A, lw_2B] ''1A'' (world_of []) =
     (None, (world_of [])\<lparr>stdout := [Nao_encontrado ''1A'']\<rparr>) \<and>
   fst (encontrar_poligono_por_id [linha_1A, lw_2B] ''1A'' (world_of [])) = None"
proof -
  have dec: "\<exists>pre post. [linha_1A, lw_2B, poly_1A, lw_1A] = pre @ poly_1A # post \<and>
         (dxftype poly_1A = ''LWPOLYLINE'' \<or> dxftype poly_1A = ''POLYLINE'') \<and>
         handle poly_1A = ''1A'' \<and>
         (\<forall>d \<in> set pre. \<not> ((dxftype d = ''LWPOLYLINE'' \<or> dxftype d = ''POLYLINE'') \<and>
                               handle d = ''1A''))"
  proof (intro exI conjI)
    show "[linha_1A, lw_2B, poly_1A, lw_1A] = [linha_1A, lw_2B] @ poly_1A # [lw_1A]"
      by simp
    show "dxftype poly_1A = ''LWPOLYLINE'' \<or> dxftype poly_1A = ''POLYLINE''"
      by (simp add: poly_1A_def)
    show "handle poly_1A = ''1A''"
      by (simp add: poly_1A_def)
    show "\<forall>d \<in> set [linha_1A, lw_2B].
            \<not> ((dxftype d = ''LWPOLYLINE'' \<or> dxftype d = ''POLYLINE'') \<and> handle d = ''1A'')"
      by (simp add: linha_1A_def lw_2B_def)
  qed
  have none: "\<forall>d \<in> set [linha_1A, lw_2B]. handle d = ''1A'' \<longrightarrow>
      dxftype d \<noteq> ''LWPOLYLINE'' \<and> dxftype d \<noteq> ''POLYLINE''"
    by (simp add: linha_1A_def lw_2B_def)
  have st: "stdout (world_of ([] :: int pontos)) = []"
    by (simp add: world_of_def)
  from encontrar_poligono_por_id_first_match
         [of "[linha_1A, lw_2B, poly_1A, lw_1A]" "''1A''" "world_of []" poly_1A] dec
  have a: "fst (encontrar_poligono_por_id [linha_1A, lw_2B, poly_1A, lw_1A] ''1A''
                  (world_of [])) = Some poly_1A"
    by blast
  from encontrar_poligono_por_id_first_match
         [of "[linha_1A, lw_2B]" "''1A''" "world_of []" poly_1A] none st
  have b: "encontrar_poligono_por_id [linha_1A, lw_2B] ''1A'' (world_of []) =
     (None, (world_of [])\<lparr>stdout := [Nao_encontrado ''1A'']\<rparr>)"
    by simp
  have k: "handle linha_1A = ''1A''" "dxftype linha_1A = ''LINE''" "handle lw_2B = ''2B''"
    by (simp_all add: linha_1A_def lw_2B_def)
  from a b k show ?thesis by simp
qed

subsection \<open>The extractor and the normalization\<close>

text \<open>Each loop appends, in order, one pair per element it visits.\<close>

lemma get_points_loop_map:
  "get_points_loop ps acc = acc @ map (\<lambda>point. (fst point, fst (snd point))) ps"
  by (induction ps arbitrary: acc) simp_all

lemma vertices_loop_map:
  "vertices_loop vs acc = acc @ map (\<lambda>vertex. (loc_x vertex, loc_y vertex)) vs"
  by (induction vs arbitrary: acc) simp_all

lemma converter_loop_map:
  "converter_loop lib ps acc =
     acc @ map (\<lambda>(px, py). (py_round16 lib px, py_round16 lib py)) ps"
  by (induction ps arbitrary: acc) auto

lemma length_extrair_polyline:
  "dxftype e = ''POLYLINE'' \<Longrightarrow> length (extrair_coordenadas_poligono e) = length (vertices e)"
  by (simp add: extrair_coordenadas_poligono_def vertices_loop_map)

lemma length_converter:
  "length (converter_coordenadas_utm lib ps zona_utm h) = length ps"
  by (simp add: converter_coordenadas_utm_def converter_loop_map)

text \<open>
  Claim C6. For a lightweight polyline the extractor returns the pairs \<open>(x, y)\<close> of its points in
  stored order, without the widths and the bulge; for a classic polyline the \<open>(x, y)\<close> of each
  vertex in stored order, without \<open>z\<close>; for an entity of any other kind the empty list. A
  polyline without points gives the empty list too: the result is always a list, never an error.
\<close>

theorem extrair_coordenadas_poligono_by_kind:
  "(dxftype e = ''LWPOLYLINE'' \<longrightarrow>
      extrair_coordenadas_poligono e =
        map (\<lambda>(px, py, start_width, end_width, bulge). (px, py)) (get_points e)) \<and>
   (dxftype e = ''POLYLINE'' \<longrightarrow>
      extrair_coordenadas_poligono e =
        map (\<lambda>vertex. (loc_x vertex, loc_y vertex)) (vertices e)) \<and>
   (dxftype e \<noteq> ''LWPOLYLINE'' \<and> dxftype e \<noteq> ''POLYLINE'' \<longrightarrow>
      extrair_coordenadas_poligono e = []) \<and>
   (dxftype e = ''LWPOLYLINE'' \<and> get_points e = [] \<longrightarrow> extrair_coordenadas_poligono e = []) \<and>
   (dxftype e = ''POLYLINE'' \<and> vertices e = [] \<longrightarrow> extrair_coordenadas_poligono e = [])"
proof -
  have pr: "(\<lambda>point. (fst point, fst (snd point))) =
        (\<lambda>(px :: 'a, py :: 'a, start_width :: 'a, end_width :: 'a, bulge :: 'a). (px, py))"
    by (simp add: fun_eq_iff)
  have lw: "extrair_coordenadas_poligono e =
        map (\<lambda>(px, py, start_width, end_width, bulge). (px, py)) (get_points e)"
    if "dxftype e = ''LWPOLYLINE''"
    using that by (simp add: extrair_coordenadas_poligono_def get_points_loop_map pr)
  have pl: "extrair_coordenadas_poligono e =
        map (\<lambda>vertex. (loc_x vertex, loc_y vertex)) (vertices e)"
    if "dxftype e = ''POLYLINE''"
    using that by (simp add: extrair_coordenadas_poligono_def vertices_loop_map)
  have ot: "extrair_coordenadas_poligono e = []"
    if "dxftype e \<noteq> ''LWPOLYLINE'' \<and> dxftype e \<noteq> ''POLYLINE''"
    using that by (simp add: extrair_coordenadas_poligono_def)
  from lw pl ot show ?thesis by auto
qed

theorem extrair_coordenadas_poligono_by_kind_witness:
  "dxftype lw_2B = ''LWPOLYLINE'' \<and>
   extrair_coordenadas_poligono lw_2B = [(0, 0), (10, 0), (10, 10)] \<and>
   dxftype poly_1A = ''POLYLINE'' \<and>
   extrair_coordenadas_poligono poly_1A = [(0, 0), (4, 0), (4, 3)] \<and>
   dxftype linha_1A \<noteq> ''LWPOLYLINE'' \<and> dxftype linha_1A \<noteq> ''POLYLINE'' \<and>
   extrair_coordenadas_poligono linha_1A = [] \<and>
   dxftype (poly_1A\<lparr>vertices := []\<rparr>) = ''POLYLINE'' \<and>
   vertices (poly_1A\<lparr>vertices := []\<rparr>) = [] \<and>
   extrair_coordenadas_poligono (poly_1A\<lparr>vertices := []\<rparr>) = [] \<and>
   dxftype (lw_2B\<lparr>get_points := []\<rparr>) = ''LWPOLYLINE'' \<and>
   get_points (lw_2B\<lparr>get_points := []\<rparr>) = [] \<and>
   extrair_coordenadas_poligono (lw_2B\<lparr>get_points := []\<rparr>) = []"
proof -
  have k: "dxftype lw_2B = ''LWPOLYLINE''" "dxftype poly_1A = ''POLYLINE''"
    "dxftype linha_1A \<noteq> ''LWPOLYLINE'' \<and> dxftype linha_1A \<noteq> ''POLYLINE''"
    "dxftype (poly_1A\<lparr>vertices := []\<rparr>) = ''POLYLINE'' \<and>
     vertices (poly_1A\<lparr>vertices := []\<rparr>) = []"
    "dxftype (lw_2B\<lparr>get_points := []\<rparr>) = ''LWPOLYLINE'' \<and>
     get_points (lw_2B\<lparr>get_points := []\<rparr>) = []"
    by (simp_all add: lw_2B_def poly_1A_def linha_1A_def)
  have v: "get_points lw_2B = [(0, 0, 0, 0, 0), (10, 0, 0, 0, 1), (10, 10, 2, 2, 0)]"
    "vertices poly_1A =
       [\<lparr>loc_x = 0, loc_y = 0, loc_z = 7\<rparr>, \<lparr>loc_x = 4, loc_y = 0, loc_z = 8\<rparr>,
        \<lparr>loc_x = 4, loc_y = 3, loc_z = 9\<rparr>]"
    by (simp_all add: lw_2B_def poly_1A_def)
  from extrair_coordenadas_poligono_by_kind [of lw_2B]
    extrair_coordenadas_poligono_by_kind [of poly_1A]
    extrair_coordenadas_poligono_by_kind [of linha_1A]
    extrair_coordenadas_poligono_by_kind [of "poly_1A\<lparr>vertices := []\<rparr>"]
    extrair_coordenadas_poligono_by_kind [of "lw_2B\<lparr>get_points := []\<rparr>"]
    k v
  show ?thesis by simp
qed

text \<open>
  Claim C7. The normalization maps each pair \<open>(x, y)\<close> of the list to the pair of
  \<^verbatim>\<open>round(x, 16)\<close> and \<^verbatim>\<open>round(y, 16)\<close>, where the rounding is Python's own (the library's
  \<open>py_round16\<close>, whatever it computes on floats), and does nothing else: the result has the
  length of the input and its element at every index is the rounded input element at that index.
\<close>

theorem converter_coordenadas_utm_rounds_each_pair:
  "converter_coordenadas_utm lib pontos zona_utm h =
     map (\<lambda>(px, py). (py_round16 lib px, py_round16 lib py)) pontos \<and>
   length (converter_coordenadas_utm lib pontos zona_utm h) = length pontos \<and>
   (\<forall>i < length pontos.
      converter_coordenadas_utm lib pontos zona_utm h ! i =
        (py_round16 lib (fst (pontos ! i)), py_round16 lib (snd (pontos ! i))))"
  by (simp add: converter_coordenadas_utm_def converter_loop_map case_prod_unfold)

theorem converter_coordenadas_utm_rounds_each_pair_witness:
  "(1::nat) < length cenario_a \<and>
   converter_coordenadas_utm demo_library cenario_a (ZStr ''23'') ''S'' ! 1 =
     (py_round16 demo_library 500100, py_round16 demo_library 7500000) \<and>
   length (converter_coordenadas_utm demo_library cenario_a (ZStr ''23'') ''S'') = 3"
proof -
  have l: "(1::nat) < length cenario_a" "length cenario_a = 3"
    "cenario_a ! 1 = (500100, 7500000)"
    by (simp_all add: cenario_a_def)
  from converter_coordenadas_utm_rounds_each_pair
         [of demo_library cenario_a "ZStr ''23''" "''S''"] l
  show ?thesis by simp
qed

subsection \<open>The writer\<close>

text \<open>The serialization prints and writes files; it never touches the lists.\<close>

lemma heap_salvar: "heap (snd (salvar lib g caminho_saida w)) = heap w"
  by (simp add: salvar_def split: prod.splits bool.splits)

lemma heap_serializar: "heap (snd (serializar lib ring zona_utm h caminho_saida w)) = heap w"
  by (simp add: serializar_def heap_salvar split: option.splits)

text \<open>
  What the source fixes about the write: the result is \<^verbatim>\<open>True\<close> exactly when the one call of
  \<^verbatim>\<open>to_file\<close> returned, and the files on disk afterwards are those the call left, with no
  cleanup after a failure.
\<close>

lemma salvar_reports_to_file:
  "fst (salvar lib g caminho_saida w) = Returned (snd (to_file lib g caminho_saida (files w))) \<and>
   files (snd (salvar lib g caminho_saida w)) = fst (to_file lib g caminho_saida (files w))"
  by (simp add: salvar_def split: prod.splits bool.splits)

text \<open>The writes of the specification's \<^verbatim>\<open>to_file\<close> stop at the first refused one.\<close>

lemma escrever_takeWhile: "escrever ok new fs = (fs @ takeWhile ok new, list_all ok new)"
  by (induction new arbitrary: fs) simp_all

lemma takeWhile_list_all: "list_all ok xs \<Longrightarrow> takeWhile ok xs = xs"
  by (induction xs) simp_all

lemma salvar_spec_to_file:
  "salvar (lib\<lparr>to_file := spec_to_file ok\<rparr>) g path v =
     (if list_all ok (quatro_arquivos path)
      then (Returned True,
            v\<lparr>files := files v @ quatro_arquivos path,
               stdout := stdout v @ [Shapefile_criado path]\<rparr>)
      else (Returned False,
            v\<lparr>files := files v @ takeWhile ok (quatro_arquivos path),
               stdout := stdout v @ [Erro_ao_criar]\<rparr>))"
  by (simp add: salvar_def spec_to_file_def escrever_takeWhile takeWhile_list_all)

lemma serializar_cases:
  "(\<exists>e. serializar lib ring zona_utm h path v = (Raised e, v)) \<or>
   (\<exists>n. serializar lib ring zona_utm h path v =
          salvar lib \<lparr>geometry = ring, crs = EPSG n\<rparr> path v)"
  by (auto simp: serializar_def split: option.splits)

lemma criar_shapefile_cases:
  "criar_shapefile lib r zona_utm h path w =
     (Returned False, w\<lparr>stdout := stdout w @ [Minimo_3_pontos]\<rparr>) \<or>
   (\<exists>e v. criar_shapefile lib r zona_utm h path w = (Raised e, v) \<and> files v = files w) \<or>
   (\<exists>g v. criar_shapefile lib r zona_utm h path w = salvar lib g path v \<and>
           files v = files w \<and> stdout v = stdout w)"
proof (cases "length (heap w r) < 3")
  case True
  then show ?thesis by (simp add: criar_shapefile_def)
next
  case False
  define v where "v = (if heap w r ! 0 \<noteq> last (heap w r)
                  then w\<lparr>heap := (heap w)(r := heap w r @ [heap w r ! 0])\<rparr> else w)"
  have fv: "files v = files w" "stdout v = stdout w" by (simp_all add: v_def)
  from False have c: "criar_shapefile lib r zona_utm h path w =
      serializar lib (heap v r) zona_utm h path v"
    by (simp add: criar_shapefile_def v_def Let_def)
  from serializar_cases [of lib "heap v r" zona_utm h path v] c fv show ?thesis
    by metis
qed

text \<open>
  Claim C8. The writer makes one call of \<^verbatim>\<open>to_file\<close>, on the one base name
  \<^verbatim>\<open>caminho_saida\<close>, inside \<^verbatim>\<open>try\<close>. For every library: the writer returns \<^verbatim>\<open>True\<close>
  only if that call returned, and then the files on disk are those the call left and the line
  of success is printed; when the call raises, the write prints the error and returns
  \<^verbatim>\<open>False\<close>. With \<^verbatim>\<open>to_file\<close> as the specification describes it: a run that returns
  \<^verbatim>\<open>True\<close> has written all four files, each on the base name; when the storage refuses the
  write of any one of the four, the run does not return \<^verbatim>\<open>True\<close>, and the write returns
  \<^verbatim>\<open>False\<close> and prints the error. The files written before the refused one stay on disk
  (the source removes nothing); they are reported as a failure, not as a bundle.
\<close>

theorem criar_shapefile_write_all_or_failure:
  "(fst (criar_shapefile lib r zona_utm h path w) = Returned True \<longrightarrow>
      (\<exists>g. to_file lib g path (files w) =
              (files (snd (criar_shapefile lib r zona_utm h path w)), True)) \<and>
      stdout (snd (criar_shapefile lib r zona_utm h path w)) =
        stdout w @ [Shapefile_criado path]) \<and>
   (snd (to_file lib g path (files v)) = False \<longrightarrow>
      salvar lib g path v =
        (Returned False,
         v\<lparr>files := fst (to_file lib g path (files v)),
            stdout := stdout v @ [Erro_ao_criar]\<rparr>)) \<and>
   (fst (criar_shapefile (lib\<lparr>to_file := spec_to_file ok\<rparr>) r zona_utm h path w) =
      Returned True \<longrightarrow>
      list_all ok (quatro_arquivos path) \<and>
      files (snd (criar_shapefile (lib\<lparr>to_file := spec_to_file ok\<rparr>) r zona_utm h path w)) =
        files w @ quatro_arquivos path) \<and>
   (\<not> list_all ok (quatro_arquivos path) \<longrightarrow>
      fst (criar_shapefile (lib\<lparr>to_file := spec_to_file ok\<rparr>) r zona_utm h path w) \<noteq>
        Returned True \<and>
      salvar (lib\<lparr>to_file := spec_to_file ok\<rparr>) g path v =
        (Returned False,
         v\<lparr>files := files v @ takeWhile ok (quatro_arquivos path),
            stdout := stdout v @ [Erro_ao_criar]\<rparr>))"
proof -
  have p1: "(\<exists>g. to_file lib g path (files w) =
              (files (snd (criar_shapefile lib r zona_utm h path w)), True)) \<and>
      stdout (snd (criar_shapefile lib r zona_utm h path w)) =
        stdout w @ [Shapefile_criado path]"
    if t: "fst (criar_shapefile lib r zona_utm h path w) = Returned True"
  proof -
    from criar_shapefile_cases [of lib r zona_utm h path w] t
    obtain g u where c: "criar_shapefile lib r zona_utm h path w = salvar lib g path u"
      and u: "files u = files w" "stdout u = stdout w"
      by auto
    from t c have "snd (to_file lib g path (files u)) = True"
      by (simp add: salvar_def split: prod.splits bool.splits)
    with c u have "to_file lib g path (files w) =
              (files (snd (criar_shapefile lib r zona_utm h path w)), True)"
      and "stdout (snd (criar_shapefile lib r zona_utm h path w)) =
        stdout w @ [Shapefile_criado path]"
      by (auto simp: salvar_def split: prod.splits bool.splits)
    then show ?thesis by blast
  qed
  have p2: "salvar lib g path v =
        (Returned False,
         v\<lparr>files := fst (to_file lib g path (files v)),
            stdout := stdout v @ [Erro_ao_criar]\<rparr>)"
    if "snd (to_file lib g path (files v)) = False"
    using that by (cases "to_file lib g path (files v)") (simp add: salvar_def)
  have p3: "list_all ok (quatro_arquivos path) \<and>
      files (snd (criar_shapefile (lib\<lparr>to_file := spec_to_file ok\<rparr>) r zona_utm h path w)) =
        files w @ quatro_arquivos path"
    if t: "fst (criar_shapefile (lib\<lparr>to_file := spec_to_file ok\<rparr>) r zona_utm h path w) =
      Returned True"
  proof -
    from criar_shapefile_cases [of "lib\<lparr>to_file := spec_to_file ok\<rparr>" r zona_utm h path w] t
    obtain g u where
      c: "criar_shapefile (lib\<lparr>to_file := spec_to_file ok\<rparr>) r zona_utm h path w =
            salvar (lib\<lparr>to_file := spec_to_file ok\<rparr>) g path u"
      and u: "files u = files w"
      by auto
    from t c have a: "list_all ok (quatro_arquivos path)"
      by (simp add: salvar_spec_to_file split: if_splits)
    with c u show ?thesis by (simp add: salvar_spec_to_file)
  qed
  have p4: "fst (criar_shapefile (lib\<lparr>to_file := spec_to_file ok\<rparr>) r zona_utm h path w) \<noteq>
        Returned True \<and>
      salvar (lib\<lparr>to_file := spec_to_file ok\<rparr>) g path v =
        (Returned False,
         v\<lparr>files := files v @ takeWhile ok (quatro_arquivos path),
            stdout := stdout v @ [Erro_ao_criar]\<rparr>)"
    if "\<not> list_all ok (quatro_arquivos path)"
    using that p3 by (auto simp: salvar_spec_to_file)
  from p1 p2 p3 p4 show ?thesis by blast
qed

theorem criar_shapefile_write_all_or_failure_witness:
  "fst (criar_shapefile demo_library 0 (ZInt 22) ''S'' ''saida'' (world_of cenario_a)) =
     Returned True \<and>
   files (snd (criar_shapefile demo_library 0 (ZInt 22) ''S'' ''saida'' (world_of cenario_a))) =
     [''saida.shp'', ''saida.shx'', ''saida.dbf'', ''saida.prj''] \<and>
   stdout (snd (criar_shapefile demo_library 0 (ZInt 22) ''S'' ''saida'' (world_of cenario_a))) =
     [Shapefile_criado ''saida''] \<and>
   snd (to_file observed_library \<lparr>geometry = cenario_a, crs = EPSG 32722\<rparr> ''saida''
          (files (world_of cenario_a))) = False \<and>
   salvar observed_library \<lparr>geometry = cenario_a, crs = EPSG 32722\<rparr> ''saida''
       (world_of cenario_a) =
     (Returned False, (world_of cenario_a)\<lparr>stdout := [Erro_ao_criar]\<rparr>) \<and>
   \<not> list_all (\<lambda>f. f = ''saida.shp'') (quatro_arquivos ''saida'') \<and>
   fst (criar_shapefile (demo_library\<lparr>to_file := spec_to_file (\<lambda>f. f = ''saida.shp'')\<rparr>)
          0 (ZInt 22) ''S'' ''saida'' (world_of cenario_a)) \<noteq> Returned True \<and>
   salvar (demo_library\<lparr>to_file := spec_to_file (\<lambda>f. f = ''saida.shp'')\<rparr>)
       \<lparr>geometry = cenario_a, crs = EPSG 32722\<rparr> ''saida'' (world_of cenario_a) =
     (Returned False,
      (world_of cenario_a)\<lparr>files := [''saida.shp''], stdout := [Erro_ao_criar]\<rparr>)"
proof -
  have d: "demo_library\<lparr>to_file := spec_to_file (\<lambda>f. True)\<rparr> = demo_library"
    by (simp add: demo_library_def)
  have t: "fst (criar_shapefile demo_library 0 (ZInt 22) ''S'' ''saida'' (world_of cenario_a)) =
     Returned True"
    by (simp add: criar_shapefile_def serializar_def salvar_def epsg_code_def upper_char_def
        demo_library_def spec_to_file_def quatro_arquivos_def world_of_def cenario_a_def)
  have o: "snd (to_file observed_library \<lparr>geometry = cenario_a, crs = EPSG 32722\<rparr> ''saida''
          (files (world_of cenario_a))) = False"
    and fo: "fst (to_file observed_library \<lparr>geometry = cenario_a, crs = EPSG 32722\<rparr> ''saida''
          (files (world_of cenario_a))) = []"
    by (simp_all add: observed_library_def world_of_def)
  have n: "\<not> list_all (\<lambda>f. f = ''saida.shp'') (quatro_arquivos ''saida'')"
    and tw: "takeWhile (\<lambda>f. f = ''saida.shp'') (quatro_arquivos ''saida'') = [''saida.shp'']"
    and q: "quatro_arquivos ''saida'' = [''saida.shp'', ''saida.shx'', ''saida.dbf'', ''saida.prj'']"
    by (simp_all add: quatro_arquivos_def)
  have w: "files (world_of cenario_a) = []" "stdout (world_of cenario_a) = []"
    by (simp_all add: world_of_def)
  note full = criar_shapefile_write_all_or_failure
    [of demo_library 0 "ZInt 22" "''S''" "''saida''" "world_of cenario_a"
      "\<lparr>geometry = cenario_a, crs = EPSG 32722\<rparr>" "world_of cenario_a" "\<lambda>f. True"]
  note obs = criar_shapefile_write_all_or_failure
    [of observed_library 0 "ZInt 22" "''S''" "''saida''" "world_of cenario_a"
      "\<lparr>geometry = cenario_a, crs = EPSG 32722\<rparr>" "world_of cenario_a" "\<lambda>f. True"]
  note part = criar_shapefile_write_all_or_failure
    [of demo_library 0 "ZInt 22" "''S''" "''saida''" "world_of cenario_a"
      "\<lparr>geometry = cenario_a, crs = EPSG 32722\<rparr>" "world_of cenario_a"
      "\<lambda>f. f = ''saida.shp''"]
  from full [THEN conjunct1] t w
  have a: "stdout (snd (criar_shapefile demo_library 0 (ZInt 22) ''S'' ''saida''
                          (world_of cenario_a))) = [Shapefile_criado ''saida'']"
    by simp
  from full [THEN conjunct2, THEN conjunct2, THEN conjunct1] t d w q
  have b: "files (snd (criar_shapefile demo_library 0 (ZInt 22) ''S'' ''saida''
                         (world_of cenario_a))) =
     [''saida.shp'', ''saida.shx'', ''saida.dbf'', ''saida.prj'']"
    by simp
  from obs [THEN conjunct2, THEN conjunct1] o fo w
  have c: "salvar observed_library \<lparr>geometry = cenario_a, crs = EPSG 32722\<rparr> ''saida''
       (world_of cenario_a) =
     (Returned False, (world_of cenario_a)\<lparr>stdout := [Erro_ao_criar]\<rparr>)"
    by (simp add: world_of_def)
  from part [THEN conjunct2, THEN conjunct2, THEN conjunct2] n tw w
  have e: "fst (criar_shapefile (demo_library\<lparr>to_file := spec_to_file (\<lambda>f. f = ''saida.shp'')\<rparr>)
          0 (ZInt 22) ''S'' ''saida'' (world_of cenario_a)) \<noteq> Returned True"
    and f: "salvar (demo_library\<lparr>to_file := spec_to_file (\<lambda>f. f = ''saida.shp'')\<rparr>)
       \<lparr>geometry = cenario_a, crs = EPSG 32722\<rparr> ''saida'' (world_of cenario_a) =
     (Returned False,
      (world_of cenario_a)\<lparr>files := [''saida.shp''], stdout := [Erro_ao_criar]\<rparr>)"
    by simp_all
  from t a b o c n e f show ?thesis by blast
qed

lemma criar_shapefile_open:
  assumes "3 \<le> length (heap w r)" and "heap w r ! 0 \<noteq> last (heap w r)"
  shows "criar_shapefile lib r zona_utm h caminho_saida w =
         serializar lib (heap w r @ [heap w r ! 0]) zona_utm h caminho_saida
           (w\<lparr>heap := (heap w)(r := heap w r @ [heap w r ! 0])\<rparr>)"
  using assms by (simp add: criar_shapefile_def)

lemma criar_shapefile_closed:
  assumes "3 \<le> length (heap w r)" and "heap w r ! 0 = last (heap w r)"
  shows "criar_shapefile lib r zona_utm h caminho_saida w =
         serializar lib (heap w r) zona_utm h caminho_saida w"
  using assms by (simp add: criar_shapefile_def)

lemma nth0_append_last: "ps \<noteq> [] \<Longrightarrow> (ps @ [ps ! 0]) ! 0 = last (ps @ [ps ! 0])"
  by (cases ps) simp_all

text \<open>
  Claim C2. For a list of at least 3 points, the writer serializes a ring \<open>ring\<close>, which is
  also the content of the list from then on: if the first and the last pair of the input differ,
  \<open>ring\<close> is the input with one copy of its first pair appended; if they are equal, \<open>ring\<close> is the
  input unchanged; in both cases the first element of \<open>ring\<close> equals its last.
\<close>

theorem criar_shapefile_closes_ring:
  assumes "3 \<le> length (heap w r)"
  shows "\<exists>ring. criar_shapefile lib r zona_utm h caminho_saida w =
           serializar lib ring zona_utm h caminho_saida (w\<lparr>heap := (heap w)(r := ring)\<rparr>) \<and>
         (heap w r ! 0 \<noteq> last (heap w r) \<longrightarrow> ring = heap w r @ [heap w r ! 0]) \<and>
         (heap w r ! 0 = last (heap w r) \<longrightarrow> ring = heap w r) \<and>
         ring ! 0 = last ring"
proof (cases "heap w r ! 0 = last (heap w r)")
  case True
  have "w\<lparr>heap := (heap w)(r := heap w r)\<rparr> = w" by simp
  with True criar_shapefile_closed [OF assms True] show ?thesis by auto
next
  case False
  from assms have "heap w r \<noteq> []" by auto
  then have "(heap w r @ [heap w r ! 0]) ! 0 = last (heap w r @ [heap w r ! 0])"
    by (rule nth0_append_last)
  with False criar_shapefile_open [OF assms False] show ?thesis by auto
qed

theorem criar_shapefile_closes_ring_witness:
  "3 \<le> length (heap (world_of cenario_a) 0) \<and>
   heap (world_of cenario_a) 0 ! 0 \<noteq> last (heap (world_of cenario_a) 0) \<and>
   criar_shapefile demo_library 0 (ZStr ''23'') ''S'' ''planta_poligono_1A'' (world_of cenario_a) =
     serializar demo_library
       [(500000, 7500000), (500100, 7500000), (500100, 7500100), (500000, 7500000)]
       (ZStr ''23'') ''S'' ''planta_poligono_1A''
       ((world_of cenario_a)
          \<lparr>heap := (heap (world_of cenario_a))
             (0 := [(500000, 7500000), (500100, 7500000), (500100, 7500100),
                    (500000, 7500000)])\<rparr>)"
proof -
  have len: "3 \<le> length (heap (world_of cenario_a) 0)"
    and op: "heap (world_of cenario_a) 0 ! 0 \<noteq> last (heap (world_of cenario_a) 0)"
    and ap: "heap (world_of cenario_a) 0 @ [heap (world_of cenario_a) 0 ! 0] =
        [(500000, 7500000), (500100, 7500000), (500100, 7500100), (500000, 7500000)]"
    by (simp_all add: world_of_def cenario_a_def)
  from criar_shapefile_closes_ring
         [OF len, of demo_library "ZStr ''23''" "''S''" "''planta_poligono_1A''"]
  obtain ring where
    eq: "criar_shapefile demo_library 0 (ZStr ''23'') ''S'' ''planta_poligono_1A''
            (world_of cenario_a) =
         serializar demo_library ring (ZStr ''23'') ''S'' ''planta_poligono_1A''
           ((world_of cenario_a)\<lparr>heap := (heap (world_of cenario_a))(0 := ring)\<rparr>)"
    and rg: "heap (world_of cenario_a) 0 ! 0 \<noteq> last (heap (world_of cenario_a) 0) \<longrightarrow>
         ring = heap (world_of cenario_a) 0 @ [heap (world_of cenario_a) 0 ! 0]"
    by blast
  from rg op ap
  have "ring = [(500000, 7500000), (500100, 7500000), (500100, 7500100), (500000, 7500000)]"
    by simp
  with eq len op show ?thesis by simp
qed

text \<open>
  Claim C3. For a list of fewer than 3 points the writer prints that a polygon needs at least
  3 points and returns \<^verbatim>\<open>False\<close>: it neither succeeds nor raises, it writes nothing (the
  files are those from before the call) and it leaves the list as it was. In particular this is
  the outcome for the points extracted from a classic polyline with exactly 2 vertices.
\<close>

theorem criar_shapefile_too_few_points:
  "(length (heap w r) < 3 \<longrightarrow>
      criar_shapefile lib r zona_utm h caminho_saida w =
        (Returned False, w\<lparr>stdout := stdout w @ [Minimo_3_pontos]\<rparr>) \<and>
      files (snd (criar_shapefile lib r zona_utm h caminho_saida w)) = files w) \<and>
   (dxftype e = ''POLYLINE'' \<and> length (vertices e) = 2 \<and>
    heap w r = converter_coordenadas_utm lib (extrair_coordenadas_poligono e) zona_utm h \<longrightarrow>
      criar_shapefile lib r zona_utm h caminho_saida w =
        (Returned False, w\<lparr>stdout := stdout w @ [Minimo_3_pontos]\<rparr>) \<and>
      files (snd (criar_shapefile lib r zona_utm h caminho_saida w)) = files w)"
proof -
  have short: "criar_shapefile lib r zona_utm h caminho_saida w =
        (Returned False, w\<lparr>stdout := stdout w @ [Minimo_3_pontos]\<rparr>) \<and>
      files (snd (criar_shapefile lib r zona_utm h caminho_saida w)) = files w"
    if "length (heap w r) < 3"
    using that by (simp add: criar_shapefile_def)
  have "length (heap w r) < 3"
    if "dxftype e = ''POLYLINE''" and "length (vertices e) = 2"
      and "heap w r = converter_coordenadas_utm lib (extrair_coordenadas_poligono e) zona_utm h"
    using that by (simp add: length_converter length_extrair_polyline)
  with short show ?thesis by blast
qed

theorem criar_shapefile_too_few_points_witness:
  "length (heap (world_of [(0::int, 0::int), (10, 0)]) 0) < 3 \<and>
   dxftype dois_vertices = ''POLYLINE'' \<and> length (vertices dois_vertices) = 2 \<and>
   heap (world_of [(0, 0), (10, 0)]) 0 =
     converter_coordenadas_utm demo_library (extrair_coordenadas_poligono dois_vertices)
       (ZStr ''22'') ''S'' \<and>
   criar_shapefile demo_library 0 (ZStr ''22'') ''S'' ''planta_poligono_2F''
       (world_of [(0, 0), (10, 0)]) =
     (Returned False, (world_of [(0, 0), (10, 0)])\<lparr>stdout := [Minimo_3_pontos]\<rparr>) \<and>
   files (snd (criar_shapefile demo_library 0 (ZStr ''22'') ''S'' ''planta_poligono_2F''
                 (world_of [(0, 0), (10, 0)]))) = []"
proof -
  have len: "length (heap (world_of [(0::int, 0::int), (10, 0)]) 0) < 3"
    by (simp add: world_of_def)
  have ent: "dxftype dois_vertices = ''POLYLINE'' \<and> length (vertices dois_vertices) = 2"
    by (simp add: dois_vertices_def)
  have pts: "heap (world_of [(0, 0), (10, 0)]) 0 =
     converter_coordenadas_utm demo_library (extrair_coordenadas_poligono dois_vertices)
       (ZStr ''22'') ''S''"
    by (simp add: world_of_def dois_vertices_def extrair_coordenadas_poligono_def
        converter_coordenadas_utm_def demo_library_def)
  have st: "stdout (world_of [(0::int, 0::int), (10, 0)]) = []"
    and fs: "files (world_of [(0::int, 0::int), (10, 0)]) = []"
    by (simp_all add: world_of_def)
  from criar_shapefile_too_few_points
         [of "world_of [(0, 0), (10, 0)]" 0 demo_library "ZStr ''22''" "''S''"
           "''planta_poligono_2F''" dois_vertices]
    len ent pts st fs
  show ?thesis by simp
qed

text \<open>
  Claim C9. The check of line 76 counts the elements of the list as it is given. A list of 3
  elements whose first and last pair are equal, \<open>[p, q, p]\<close>, has only 2 distinct points; the
  writer does not reject it but serializes it as it is. On \<open>[(0, 0), (10, 0), (0, 0)]\<close>, with
  the library as the specification describes it the run writes the files and returns
  \<^verbatim>\<open>True\<close>; with \<^verbatim>\<open>to_file\<close> as geopandas runs it the call raises and the line printed
  is the error of the write, not the rejection of line 77.
\<close>

theorem criar_shapefile_accepts_degenerate_ring:
  "criar_shapefile lib r zona_utm h caminho_saida (w\<lparr>heap := (heap w)(r := [p, q, p])\<rparr>) =
     serializar lib [p, q, p] zona_utm h caminho_saida (w\<lparr>heap := (heap w)(r := [p, q, p])\<rparr>) \<and>
   criar_shapefile demo_library 0 (ZInt 22) ''S'' ''saida'' (world_of [(0, 0), (10, 0), (0, 0)]) =
     (Returned True,
      (world_of [(0, 0), (10, 0), (0, 0)])
        \<lparr>files := quatro_arquivos ''saida'', stdout := [Shapefile_criado ''saida'']\<rparr>) \<and>
   criar_shapefile observed_library 0 (ZInt 22) ''S'' ''saida''
       (world_of [(0, 0), (10, 0), (0, 0)]) =
     (Returned False, (world_of [(0, 0), (10, 0), (0, 0)])\<lparr>stdout := [Erro_ao_criar]\<rparr>)"
proof -
  have a: "criar_shapefile lib r zona_utm h caminho_saida
             (w\<lparr>heap := (heap w)(r := [p, q, p])\<rparr>) =
     serializar lib [p, q, p] zona_utm h caminho_saida (w\<lparr>heap := (heap w)(r := [p, q, p])\<rparr>)"
    by (simp add: criar_shapefile_def)
  have b: "criar_shapefile demo_library 0 (ZInt 22) ''S'' ''saida''
             (world_of [(0, 0), (10, 0), (0, 0)]) =
     (Returned True,
      (world_of [(0, 0), (10, 0), (0, 0)])
        \<lparr>files := quatro_arquivos ''saida'', stdout := [Shapefile_criado ''saida'']\<rparr>)"
    by (simp add: criar_shapefile_def serializar_def salvar_def epsg_code_def upper_char_def
        demo_library_def spec_to_file_def quatro_arquivos_def world_of_def)
  have c: "criar_shapefile observed_library 0 (ZInt 22) ''S'' ''saida''
       (world_of [(0, 0), (10, 0), (0, 0)]) =
     (Returned False, (world_of [(0, 0), (10, 0), (0, 0)])\<lparr>stdout := [Erro_ao_criar]\<rparr>)"
    by (simp add: criar_shapefile_def serializar_def salvar_def epsg_code_def upper_char_def
        observed_library_def demo_library_def world_of_def)
  from a b c show ?thesis by simp
qed

text \<open>
  Claim C10. The writer appends to the list it is given. For a list of at least 3 points whose
  first and last pair differ, the caller's list holds, after the call, its old content followed
  by one copy of its first pair, whatever the call returned or raised; for a list whose first
  and last pair are equal, the caller's list is unchanged.
\<close>

theorem criar_shapefile_mutates_argument:
  assumes "3 \<le> length (heap w r)"
  shows "(heap w r ! 0 \<noteq> last (heap w r) \<longrightarrow>
            heap (snd (criar_shapefile lib r zona_utm h caminho_saida w)) r =
              heap w r @ [heap w r ! 0]) \<and>
         (heap w r ! 0 = last (heap w r) \<longrightarrow>
            heap (snd (criar_shapefile lib r zona_utm h caminho_saida w)) r = heap w r)"
  using assms by (simp add: criar_shapefile_def heap_serializar)

theorem criar_shapefile_mutates_argument_witness:
  "3 \<le> length (heap (world_of cenario_a) 0) \<and>
   heap (world_of cenario_a) 0 ! 0 \<noteq> last (heap (world_of cenario_a) 0) \<and>
   heap (snd (criar_shapefile failing_library 0 (ZInt 23) ''S'' ''saida'' (world_of cenario_a))) 0 =
     cenario_a @ [(500000, 7500000)] \<and>
   3 \<le> length (heap (world_of (cenario_a @ [(500000, 7500000)])) 0) \<and>
   heap (world_of (cenario_a @ [(500000, 7500000)])) 0 ! 0 =
     last (heap (world_of (cenario_a @ [(500000, 7500000)])) 0) \<and>
   heap (snd (criar_shapefile failing_library 0 (ZInt 23) ''S'' ''saida''
                (world_of (cenario_a @ [(500000, 7500000)])))) 0 =
     cenario_a @ [(500000, 7500000)]"
proof -
  have o: "3 \<le> length (heap (world_of cenario_a) 0)"
    "heap (world_of cenario_a) 0 ! 0 \<noteq> last (heap (world_of cenario_a) 0)"
    "heap (world_of cenario_a) 0 = cenario_a" "cenario_a ! 0 = (500000, 7500000)"
    by (simp_all add: world_of_def cenario_a_def)
  have c: "3 \<le> length (heap (world_of (cenario_a @ [(500000, 7500000)])) 0)"
    "heap (world_of (cenario_a @ [(500000, 7500000)])) 0 ! 0 =
     last (heap (world_of (cenario_a @ [(500000, 7500000)])) 0)"
    "heap (world_of (cenario_a @ [(500000, 7500000)])) 0 = cenario_a @ [(500000, 7500000)]"
    by (simp_all add: world_of_def cenario_a_def)
  from criar_shapefile_mutates_argument
         [OF o(1), of failing_library "ZInt 23" "''S''" "''saida''"]
    criar_shapefile_mutates_argument
         [OF c(1), of failing_library "ZInt 23" "''S''" "''saida''"]
    o c
  show ?thesis by simp
qed

end
